theory Spec2Isabelle
  imports Complex_Main "HOL-Library.Sublist"
begin

section \<open>Python values and built-ins used by make_shorts_cli.py\<close>

text \<open>
  The exceptions that can reach the handlers of the program. \<open>KeyboardInterrupt\<close>
  derives from \<open>BaseException\<close> only, so an \<open>except Exception\<close> clause does not
  catch it; every other constructor is a subclass of \<open>Exception\<close>.
\<close>

datatype py_exception =
    FileNotFoundError
  | PermissionError
  | CalledProcessError int "string list"
  | UnicodeDecodeError
  | ValueError
  | OverflowError
  | KeyboardInterrupt

fun is_Exception :: "py_exception \<Rightarrow> bool" where
  "is_Exception KeyboardInterrupt = False"
| "is_Exception _ = True"

text \<open>
  A Python float is a finite value (kept as the rational number it denotes), an
  infinity or a NaN. The program never does arithmetic on the probed duration: it
  only converts it with \<open>int()\<close>, which truncates toward zero and raises on an
  infinity (OverflowError) or a NaN (ValueError).
\<close>

datatype pyfloat = Finite rat | PosInf | NegInf | NaN

definition py_trunc :: "rat \<Rightarrow> int" where
  "py_trunc r = (if 0 \<le> r then \<lfloor>r\<rfloor> else \<lceil>r\<rceil>)"

fun py_int_of_float :: "pyfloat \<Rightarrow> py_exception + int" where
  "py_int_of_float (Finite r) = Inr (py_trunc r)"
| "py_int_of_float PosInf = Inl OverflowError"
| "py_int_of_float NegInf = Inl OverflowError"
| "py_int_of_float NaN = Inl ValueError"

text \<open>\<open>range(n)\<close>: the integers \<open>0, 1, ..., n - 1\<close>; empty when \<open>n \<le> 0\<close>.\<close>

definition py_range :: "int \<Rightarrow> int list" where
  "py_range n = [0..n - 1]"

text \<open>
  \<open>sorted(xs, key=key, reverse=True)\<close>: Python's sort is stable and keeps the
  stability under \<open>reverse=True\<close> (elements with equal keys stay in their original
  order); CPython gets it by reversing, sorting stably in ascending order and
  reversing again, which is what is written here with the stable \<open>sort_key\<close>.
\<close>

definition py_sorted_reverse :: "('a \<Rightarrow> 'k::linorder) \<Rightarrow> 'a list \<Rightarrow> 'a list" where
  "py_sorted_reverse key xs = rev (sort_key key (rev xs))"

text \<open>
  The slice \<open>xs[:n]\<close>: the first \<open>n\<close> elements when \<open>n \<ge> 0\<close>; for a negative
  \<open>n\<close> the stop index is \<open>max(len(xs) + n, 0)\<close>, so the last \<open>-n\<close> elements are
  dropped.
\<close>

definition py_slice_to :: "'a list \<Rightarrow> int \<Rightarrow> 'a list" where
  "py_slice_to xs n =
     (if 0 \<le> n then take (nat n) xs else take (length xs - nat (- n)) xs)"

text \<open>\<open>str(i)\<close> and the format specification \<open>02d\<close> for integers.\<close>

definition digit_char :: "nat \<Rightarrow> char" where
  "digit_char d = ''0123456789'' ! d"

fun py_str_nat :: "nat \<Rightarrow> string" where
  "py_str_nat n =
     (if n < 10 then [digit_char n]
      else py_str_nat (n div 10) @ [digit_char (n mod 10)])"

declare py_str_nat.simps [simp del]

definition py_str :: "int \<Rightarrow> string" where
  "py_str i = (if i < 0 then ''-'' @ py_str_nat (nat (- i)) else py_str_nat (nat i))"

definition fmt_02d :: "int \<Rightarrow> string" where
  "fmt_02d i =
     (if i < 0 then ''-'' @ py_str_nat (nat (- i))
      else replicate (2 - length (py_str_nat (nat i))) (CHR ''0'') @ py_str_nat (nat i))"

text \<open>\<open>os.path.join(a, b)\<close> with the POSIX separator.\<close>

definition path_join :: "string \<Rightarrow> string \<Rightarrow> string" where
  "path_join a b =
     (if b \<noteq> [] \<and> hd b = CHR ''/'' then b
      else if a = [] \<or> last a = CHR ''/'' then a @ b
      else a @ ''/'' @ b)"

section \<open>The environment: external processes, console and disk\<close>

type_synonym bytes = "char list"

text \<open>
  What a process leaves when it exits: its status and the bytes it wrote to its
  captured streams. \<open>completed_process\<close> is the \<open>CompletedProcess\<close> that
  \<open>subprocess.run(..., text=True)\<close> returns, with the streams decoded to text.
\<close>

record raw_process =
  exit_status :: int
  raw_stdout :: bytes
  raw_stderr :: bytes

record completed_process =
  returncode :: int
  proc_stdout :: string
  proc_stderr :: string

type_synonym disk = "string \<rightharpoonup> string"

text \<open>
  What the program takes from outside itself:
  \<^item> \<open>check_output_text argv\<close> is the outcome of
    \<open>subprocess.check_output(argv).decode()\<close>: the decoded standard output, or the
    exception raised (missing binary, non-zero exit status, undecodable bytes, ...);
  \<^item> \<open>str_strip\<close> and \<open>py_float\<close> are \<open>str.strip\<close> and \<open>float\<close>; \<open>float\<close>
    raises ValueError (here \<open>None\<close>) on a text that is not a number;
  \<^item> \<open>abspath\<close> is \<open>os.path.abspath\<close>;
  \<^item> \<open>run_process argv d\<close> is what starting the program \<open>argv\<close> on the disk
    \<open>d\<close> does: the exception raised when it cannot be started (missing binary,
    no permission) or its exit status and the bytes of its captured streams, and
    the disk it leaves;
  \<^item> \<open>py_decode\<close> is the decoding that \<open>text=True\<close> applies to captured bytes
    (the locale's encoding, strict); it raises UnicodeDecodeError (here \<open>None\<close>) on
    bytes that are not valid in that encoding.
\<close>

record runtime =
  check_output_text :: "string list \<Rightarrow> py_exception + string"
  str_strip :: "string \<Rightarrow> string"
  py_float :: "string \<Rightarrow> pyfloat option"
  abspath :: "string \<Rightarrow> string"
  run_process :: "string list \<Rightarrow> disk \<Rightarrow> (py_exception + raw_process) \<times> disk"
  py_decode :: "bytes \<Rightarrow> string option"

text \<open>
  The state the program acts on: the lines written by \<open>print\<close> (oldest first), the
  files on disk, and the argument vectors handed to \<open>subprocess.run\<close>, in the
  order of the calls.
\<close>

record world =
  console :: "string list"
  files :: disk
  started :: "string list list"

fun join_space :: "string list \<Rightarrow> string" where
  "join_space [] = []"
| "join_space [a] = a"
| "join_space (a # b # rest) = a @ '' '' @ join_space (b # rest)"

definition py_print :: "string list \<Rightarrow> world \<Rightarrow> world" where
  "py_print args w = w\<lparr>console := console w @ [join_space args]\<rparr>"

text \<open>
  \<open>subprocess.run(cmd, stdout=PIPE, stderr=PIPE, text=True)\<close>: it raises when the
  program cannot be started and when a captured stream cannot be decoded;
  otherwise it returns the exit status and the decoded streams, whatever the
  status is.
\<close>

definition subprocess_run ::
  "runtime \<Rightarrow> string list \<Rightarrow> world \<Rightarrow> (py_exception + completed_process) \<times> world" where
  "subprocess_run rt cmd w =
     (let (r, d) = run_process rt cmd (files w);
          w' = w\<lparr>files := d, started := started w @ [cmd]\<rparr>
      in case r of
           Inl e \<Rightarrow> (Inl e, w')
         | Inr raw \<Rightarrow>
             (case py_decode rt (raw_stdout raw) of
                None \<Rightarrow> (Inl UnicodeDecodeError, w')
              | Some out \<Rightarrow>
                  (case py_decode rt (raw_stderr raw) of
                     None \<Rightarrow> (Inl UnicodeDecodeError, w')
                   | Some err \<Rightarrow>
                       (Inr \<lparr>returncode = exit_status raw,
                             proc_stdout = out, proc_stderr = err\<rparr>, w'))))"

section \<open>Fallback sequential scenes\<close>

definition ffprobe_cmd :: "string \<Rightarrow> string list" where
  "ffprobe_cmd path =
     [''ffprobe'', ''-v'', ''error'',
      ''-select_streams'', ''v:0'',
      ''-show_entries'', ''format=duration'',
      ''-of'', ''default=noprint_wrappers=1:nokey=1'',
      path]"

text \<open>
  The \<open>try\<close> block runs the probe, decodes and strips its output and parses it;
  \<open>except Exception\<close> turns every exception raised there that derives from
  \<open>Exception\<close> into the value \<open>0.0\<close>.
\<close>

definition get_video_length_seconds :: "runtime \<Rightarrow> string \<Rightarrow> py_exception + pyfloat" where
  "get_video_length_seconds rt path =
     (case check_output_text rt (ffprobe_cmd path) of
        Inl e \<Rightarrow> if is_Exception e then Inr (Finite 0) else Inl e
      | Inr text \<Rightarrow>
          (case py_float rt (str_strip rt text) of
             None \<Rightarrow> Inr (Finite 0)
           | Some d \<Rightarrow> Inr d))"

definition make_sequential_scenes ::
  "runtime \<Rightarrow> string \<Rightarrow> int \<Rightarrow> int \<Rightarrow> py_exception + (int \<times> int) list" where
  "make_sequential_scenes rt video_path n clip_len =
     (case get_video_length_seconds rt video_path of
        Inl e \<Rightarrow> Inl e
      | Inr d \<Rightarrow>
          (case py_int_of_float d of
             Inl e \<Rightarrow> Inl e
           | Inr total_s \<Rightarrow>
               (let starts = map (\<lambda>i. i * clip_len) (py_range n);
                    scenes = map (\<lambda>s. (s, min (s + clip_len) total_s)) starts
                in Inr scenes)))"

section \<open>Pick top scenes\<close>

text \<open>
  The times of a scene are Python ints (fallback scenes) or floats (detected
  scenes): any type with a subtraction and a total order.
\<close>

definition scene_length :: "'a::minus \<times> 'a \<Rightarrow> 'a" where
  "scene_length s = snd s - fst s"

definition pick_top_scenes ::
  "('a::{minus,linorder} \<times> 'a) list \<Rightarrow> int \<Rightarrow> ('a \<times> 'a) list" where
  "pick_top_scenes scenes n =
     (if scenes = [] then []
      else let scenes_sorted = py_sorted_reverse scene_length scenes
           in py_slice_to scenes_sorted n)"

section \<open>Create short via FFmpeg\<close>

definition filter_graph :: string where
  "filter_graph =
     ''[0:v]scale=1080:1920:force_original_aspect_ratio=decrease,'' @
     ''pad=1080:1920:(ow-iw)/2:(oh-ih)/2,boxblur[bg];'' @
     ''[0:v]scale=1080:-2[fg];'' @
     ''[bg][fg]overlay=(W-w)/2:(H-h)/2,format=yuv420p[v]''"

definition ffmpeg_cmd :: "string \<Rightarrow> int \<Rightarrow> int \<Rightarrow> string \<Rightarrow> string list" where
  "ffmpeg_cmd input_abspath start duration out_abspath =
     [''ffmpeg'',
      ''-ss'', py_str start,
      ''-i'', input_abspath,
      ''-t'', py_str duration,
      ''-y'',
      ''-filter_complex'', filter_graph,
      ''-map'', ''[v]'',
      ''-map'', ''0:a?'',
      ''-c:v'', ''libx264'',
      ''-preset'', ''fast'',
      ''-crf'', ''23'',
      ''-c:a'', ''aac'',
      ''-b:a'', ''128k'',
      out_abspath]"

text \<open>The text of the failure line, with the bytes the source file has for its dash.\<close>

definition ffmpeg_failed_line :: string where
  "ffmpeg_failed_line =
     ''ffmpeg failed '' @
     [CHR 0xC3, CHR 0xA2, CHR 0xE2, CHR 0x82, CHR 0xAC, CHR 0xE2, CHR 0x80, CHR 0x9D] @
     '' stderr:''"

definition create_short ::
  "runtime \<Rightarrow> string \<Rightarrow> int \<Rightarrow> int \<Rightarrow> string \<Rightarrow> world \<Rightarrow> (py_exception + unit) \<times> world" where
  "create_short rt input_path start duration out_path w =
     (let input_abspath = abspath rt input_path;
          out_abspath = abspath rt out_path;
          w1 = py_print [''FFmpeg input:'', input_abspath] w;
          w2 = py_print [''FFmpeg output:'', out_abspath] w1;
          cmd = ffmpeg_cmd input_abspath start duration out_abspath;
          (r, w3) = subprocess_run rt cmd w2
      in case r of
           Inl e \<Rightarrow> (Inl e, w3)
         | Inr proc \<Rightarrow>
             if returncode proc \<noteq> 0 then
               (let w4 = py_print [ffmpeg_failed_line] w3;
                    w5 = py_print [proc_stderr proc] w4
                in (Inl (CalledProcessError (returncode proc) cmd), w5))
             else (Inr (), w3))"

section \<open>Main program: step 4, create shorts\<close>

text \<open>
  The destination of the \<open>i\<close>-th iteration:
  \<open>os.path.abspath(os.path.join("shorts", f"short_{i+1:02d}.mp4"))\<close>.
\<close>

definition short_relpath :: "nat \<Rightarrow> string" where
  "short_relpath i = path_join ''shorts'' (''short_'' @ fmt_02d (int i + 1) @ ''.mp4'')"

definition short_path :: "runtime \<Rightarrow> nat \<Rightarrow> string" where
  "short_path rt i = abspath rt (short_relpath i)"

text \<open>
  The loop over \<open>enumerate(chosen)\<close>. \<open>to_int\<close> is Python's \<open>int()\<close> on the type
  of the scene times (the identity on ints, truncation on floats). An exception
  raised by \<open>create_short\<close> is not handled: it ends the loop and the program.
\<close>

fun main_loop ::
  "('a \<Rightarrow> int) \<Rightarrow> runtime \<Rightarrow> string \<Rightarrow> int \<Rightarrow> (nat \<times> 'a \<times> 'a) list \<Rightarrow> world
     \<Rightarrow> (py_exception + unit) \<times> world" where
  "main_loop to_int rt video short_dur [] w = (Inr (), w)"
| "main_loop to_int rt video short_dur ((i, sstart, send) # rest) w =
     (let start = to_int sstart;
          out = short_path rt i;
          w1 = py_print [''\<newline>Creating short ->'', out] w
      in case create_short rt video start short_dur out w1 of
           (Inl e, w2) \<Rightarrow> (Inl e, w2)
         | (Inr u, w2) \<Rightarrow>
             main_loop to_int rt video short_dur rest (py_print [''Finished ->'', out] w2))"

definition create_shorts ::
  "('a \<Rightarrow> int) \<Rightarrow> runtime \<Rightarrow> string \<Rightarrow> int \<Rightarrow> ('a \<times> 'a) list \<Rightarrow> world
     \<Rightarrow> (py_exception + unit) \<times> world" where
  "create_shorts to_int rt video short_dur chosen w =
     main_loop to_int rt video short_dur (enumerate 0 chosen) w"

section \<open>Sample environments and inputs\<close>

text \<open>
  Concrete stand-ins for the built-ins and the external tools, used to run the
  definitions on explicit inputs.
\<close>

definition is_ws :: "char \<Rightarrow> bool" where
  "is_ws c = (c = CHR '' '' \<or> c = CHR 0x0A \<or> c = CHR 0x0D \<or> c = CHR 0x09)"

definition sample_strip :: "string \<Rightarrow> string" where
  "sample_strip s = rev (dropWhile is_ws (rev (dropWhile is_ws s)))"

definition sample_float :: "string \<Rightarrow> pyfloat option" where
  "sample_float s =
     (if s = ''90.000000'' then Some (Finite 90)
      else if s = ''10.000000'' then Some (Finite 10)
      else if s = ''nan'' then Some NaN
      else None)"

definition sample_abspath :: "string \<Rightarrow> string" where
  "sample_abspath p = (if p \<noteq> [] \<and> hd p = CHR ''/'' then p else ''/work/'' @ p)"

text \<open>
  An encoder that exits with status 1 on a clip starting at second 10, with a
  message on its standard error, and on a clip starting at second 20, with a byte
  on its standard error that is no text; otherwise it writes its destination, the
  last argument, and exits with status 0. The sample decoding refuses the byte
  \<open>0xFF\<close>, which occurs in no UTF-8 text.
\<close>

definition sample_encoder ::
  "string list \<Rightarrow> disk \<Rightarrow> (py_exception + raw_process) \<times> disk" where
  "sample_encoder cmd d =
     (if cmd ! 2 = ''10'' then
        (Inr \<lparr>exit_status = 1, raw_stdout = [], raw_stderr = ''Invalid data found''\<rparr>, d)
      else if cmd ! 2 = ''20'' then
        (Inr \<lparr>exit_status = 1, raw_stdout = [], raw_stderr = [CHR 0xFF]\<rparr>, d)
      else
        (Inr \<lparr>exit_status = 0, raw_stdout = [], raw_stderr = []\<rparr>,
         d(last cmd \<mapsto> ''clip from '' @ cmd ! 2)))"

definition sample_decode :: "bytes \<Rightarrow> string option" where
  "sample_decode b = (if CHR 0xFF \<in> set b then None else Some b)"

definition sample_runtime :: "py_exception + string \<Rightarrow> runtime" where
  "sample_runtime probe =
     \<lparr>check_output_text = (\<lambda>argv. probe),
      str_strip = sample_strip,
      py_float = sample_float,
      abspath = sample_abspath,
      run_process = sample_encoder,
      py_decode = sample_decode\<rparr>"

definition scenario_A :: "(int \<times> int) list" where
  "scenario_A = [(0, 10), (10, 15), (15, 45)]"

definition empty_world :: world where
  "empty_world = \<lparr>console = [], files = Map.empty, started = []\<rparr>"

text \<open>
  The state after a first clip starting at second 15 has been rendered from
  \<open>video.mp4\<close> with a clip length of 30, and the two results of the sample
  encoder when it fails.
\<close>

definition sample_world_1 :: world where
  "sample_world_1 =
     \<lparr>console =
        [''\<newline>Creating short -> /work/shorts/short_01.mp4'',
         ''FFmpeg input: /work/video.mp4'',
         ''FFmpeg output: /work/shorts/short_01.mp4'',
         ''Finished -> /work/shorts/short_01.mp4''],
      files = [''/work/shorts/short_01.mp4'' \<mapsto> ''clip from 15''],
      started = [ffmpeg_cmd ''/work/video.mp4'' 15 30 ''/work/shorts/short_01.mp4'']\<rparr>"

definition sample_failure :: raw_process where
  "sample_failure = \<lparr>exit_status = 1, raw_stdout = [], raw_stderr = ''Invalid data found''\<rparr>"

definition sample_garbled_failure :: raw_process where
  "sample_garbled_failure = \<lparr>exit_status = 1, raw_stdout = [], raw_stderr = [CHR 0xFF]\<rparr>"

section \<open>Properties of the scene selection\<close>

lemma py_slice_to_take: "\<exists>m. py_slice_to xs n = take m xs"
  by (auto simp: py_slice_to_def)

lemma py_sorted_reverse_descending:
  "sorted_wrt (\<lambda>a b. key b \<le> key a) (py_sorted_reverse key xs)"
proof -
  have "sorted (map key (sort_key key (rev xs)))"
    by (rule sorted_sort_key)
  then have "sorted_wrt (\<lambda>a b. key a \<le> key b) (sort_key key (rev xs))"
    by (simp add: sorted_map)
  then show ?thesis
    by (simp add: py_sorted_reverse_def sorted_wrt_rev)
qed

lemma py_sorted_reverse_stable:
  "filter (\<lambda>s. key s = k) (py_sorted_reverse key xs) = filter (\<lambda>s. key s = k) xs"
proof -
  have "filter (\<lambda>s. key s = k) (py_sorted_reverse key xs)
        = rev (filter (\<lambda>s. key s = k) (sort_key key (rev xs)))"
    by (simp add: py_sorted_reverse_def rev_filter)
  also have "\<dots> = rev (filter (\<lambda>s. key s = k) (rev xs))"
    by (simp only: sort_key_stable)
  also have "\<dots> = filter (\<lambda>s. key s = k) xs"
    by (simp add: rev_filter)
  finally show ?thesis .
qed

lemma py_sorted_reverse_fixed:
  assumes "sorted_wrt (\<lambda>a b. key b \<le> key a) xs"
  shows "py_sorted_reverse key xs = xs"
proof -
  from assms have "sorted_wrt (\<lambda>a b. key a \<le> key b) (rev xs)"
    by (simp add: sorted_wrt_rev)
  then have "sorted (map key (rev xs))"
    by (simp add: sorted_map)
  then have "sort_key key (rev xs) = rev xs"
    by (rule sort_key_id_if_sorted)
  then show ?thesis
    by (simp add: py_sorted_reverse_def)
qed

lemma length_py_sorted_reverse: "length (py_sorted_reverse key xs) = length xs"
  by (simp add: py_sorted_reverse_def)

lemma pick_top_scenes_take:
  "\<exists>m. pick_top_scenes scenes n = take m (py_sorted_reverse scene_length scenes)"
proof (cases "scenes = []")
  case True
  then show ?thesis by (simp add: pick_top_scenes_def py_sorted_reverse_def)
next
  case False
  then show ?thesis
    using py_slice_to_take [of "py_sorted_reverse scene_length scenes" n]
    by (simp add: pick_top_scenes_def)
qed

lemma pick_top_scenes_sorted:
  "sorted_wrt (\<lambda>a b. scene_length b \<le> scene_length a) (pick_top_scenes scenes n)"
proof -
  obtain m where "pick_top_scenes scenes n = take m (py_sorted_reverse scene_length scenes)"
    using pick_top_scenes_take by blast
  then show ?thesis
    using py_sorted_reverse_descending [of scene_length scenes]
    by (simp add: sorted_wrt_take)
qed

lemma length_pick_top_scenes:
  "length (pick_top_scenes scenes n) =
     (if 0 \<le> n then min (nat n) (length scenes) else length scenes - nat (- n))"
  by (cases "scenes = []")
     (auto simp: pick_top_scenes_def py_slice_to_def length_py_sorted_reverse)

lemma scenario_A_top_2: "pick_top_scenes scenario_A 2 = [(15, 45), (0, 10)]"
  by (simp add: scenario_A_def pick_top_scenes_def py_sorted_reverse_def py_slice_to_def
      scene_length_def)

lemma scenario_A_top_minus_1: "pick_top_scenes scenario_A (- 1) = [(15, 45), (0, 10)]"
  by (simp add: scenario_A_def pick_top_scenes_def py_sorted_reverse_def py_slice_to_def
      scene_length_def)

lemma scenario_A_top_minus_1_twice:
  "pick_top_scenes [(15, 45), (0, 10 :: int)] (- 1) = [(15, 45)]"
  by (simp add: pick_top_scenes_def py_sorted_reverse_def py_slice_to_def scene_length_def)

text \<open>
  C4, as stated: for every list of intervals and every \<open>n\<close>, the selection has
  \<open>min(n, len(intervals))\<close> elements. It fails for a negative \<open>n\<close>, where the slice
  \<open>[:n]\<close> drops the last \<open>-n\<close> elements: three intervals and \<open>n = -1\<close> give two
  intervals, not \<open>min(-1, 3)\<close>.
\<close>

theorem pick_top_scenes_length_negative_n:
  "int (length (pick_top_scenes scenario_A (- 1))) \<noteq> min (- 1) (int (length scenario_A))"
  by (simp add: scenario_A_top_minus_1)

text \<open>
  C4, amended: for every list of intervals and every non-negative \<open>n\<close>, the
  selection has \<open>min(n, len(intervals))\<close> elements; so all intervals are returned
  when \<open>n\<close> exceeds their number, and an empty input gives an empty output.
\<close>

theorem pick_top_scenes_length:
  "0 \<le> n \<Longrightarrow> int (length (pick_top_scenes scenes n)) = min n (int (length scenes))"
  by (simp add: length_pick_top_scenes)

theorem pick_top_scenes_length_witness:
  "(0::int) \<le> 2 \<and>
   int (length (pick_top_scenes scenario_A 2)) = min 2 (int (length scenario_A))"
proof -
  have h: "(0::int) \<le> 2" by simp
  show ?thesis using h pick_top_scenes_length [OF h, of scenario_A] by simp
qed

text \<open>
  C5: for every list of intervals and every \<open>n\<close>, two returned intervals at
  positions \<open>i < j\<close> satisfy \<open>length(interval_i) \<ge> length(interval_j)\<close>, the length
  being end minus start.
\<close>

theorem pick_top_scenes_descending:
  "i < j \<Longrightarrow> j < length (pick_top_scenes scenes n) \<Longrightarrow>
   scene_length (pick_top_scenes scenes n ! j) \<le> scene_length (pick_top_scenes scenes n ! i)"
  using pick_top_scenes_sorted [of scenes n]
  by (simp add: sorted_wrt_iff_nth_less)

theorem pick_top_scenes_descending_witness:
  "(0::nat) < 1 \<and> 1 < length (pick_top_scenes scenario_A 2) \<and>
   scene_length (pick_top_scenes scenario_A 2 ! 1) \<le> scene_length (pick_top_scenes scenario_A 2 ! 0)"
proof -
  have h1: "(0::nat) < 1" by simp
  have h2: "1 < length (pick_top_scenes scenario_A 2)"
    by (simp add: scenario_A_top_2)
  show ?thesis using h1 h2 pick_top_scenes_descending [OF h1 h2] by simp
qed

text \<open>
  C6: the selection is stable. For every input, every \<open>n\<close> and every length \<open>k\<close>,
  the returned intervals of length \<open>k\<close> are, in the same order, the first ones among
  the intervals of length \<open>k\<close> of the input: of two intervals of equal length, the
  one earlier in the input is earlier in the output.
\<close>

theorem pick_top_scenes_stable:
  "prefix (filter (\<lambda>s. scene_length s = k) (pick_top_scenes scenes n))
          (filter (\<lambda>s. scene_length s = k) scenes)"
proof -
  obtain m where m: "pick_top_scenes scenes n = take m (py_sorted_reverse scene_length scenes)"
    using pick_top_scenes_take by blast
  let ?P = "\<lambda>s. scene_length s = k"
  let ?ys = "py_sorted_reverse scene_length scenes"
  have "filter ?P ?ys = filter ?P (take m ?ys) @ filter ?P (drop m ?ys)"
    by (metis append_take_drop_id filter_append)
  then have "prefix (filter ?P (take m ?ys)) (filter ?P ?ys)"
    by (metis prefixI)
  then show ?thesis
    by (simp add: m py_sorted_reverse_stable)
qed

text \<open>
  C7, as stated: selecting again with the same \<open>n\<close> changes nothing, for every
  \<open>n\<close>. It fails for a negative \<open>n\<close>: each application drops the last \<open>-n\<close>
  intervals once more.
\<close>

theorem pick_top_scenes_not_idempotent_negative_n:
  "pick_top_scenes (pick_top_scenes scenario_A (- 1)) (- 1) \<noteq> pick_top_scenes scenario_A (- 1)"
  by (simp add: scenario_A_top_minus_1 scenario_A_top_minus_1_twice)

text \<open>
  C7, amended: for every list of intervals and every non-negative \<open>n\<close>,
  \<open>pick_top_scenes (pick_top_scenes scenes n) n = pick_top_scenes scenes n\<close>.
\<close>

theorem pick_top_scenes_idempotent:
  assumes "0 \<le> n"
  shows "pick_top_scenes (pick_top_scenes scenes n) n = pick_top_scenes scenes n"
proof (cases "pick_top_scenes scenes n = []")
  case True
  then show ?thesis by (simp add: pick_top_scenes_def)
next
  case False
  let ?out = "pick_top_scenes scenes n"
  have fixed: "py_sorted_reverse scene_length ?out = ?out"
    by (rule py_sorted_reverse_fixed) (rule pick_top_scenes_sorted)
  have "length ?out \<le> nat n"
    using assms by (simp add: length_pick_top_scenes)
  then have "take (nat n) ?out = ?out"
    by simp
  then have "py_slice_to ?out n = ?out"
    using assms by (simp add: py_slice_to_def)
  with False fixed show ?thesis
    by (simp add: pick_top_scenes_def [of ?out])
qed

theorem pick_top_scenes_idempotent_witness:
  "(0::int) \<le> 2 \<and>
   pick_top_scenes (pick_top_scenes scenario_A 2) 2 = pick_top_scenes scenario_A 2"
proof -
  have h: "(0::int) \<le> 2" by simp
  show ?thesis using h pick_top_scenes_idempotent [OF h, of scenario_A] by simp
qed

section \<open>Properties of the duration probe and of the fallback scenes\<close>

lemma length_py_range: "length (py_range n) = nat n"
  by (simp add: py_range_def)

lemma nth_py_range: "i < nat n \<Longrightarrow> py_range n ! i = int i"
  by (simp add: py_range_def nth_upto)

lemma set_py_range: "set (py_range n) = {0..n - 1}"
  by (simp add: py_range_def)

lemma make_sequential_scenes_finite:
  "get_video_length_seconds rt path = Inr (Finite d) \<Longrightarrow>
   make_sequential_scenes rt path n clip_len =
     Inr (map (\<lambda>s. (s, min (s + clip_len) (py_trunc d)))
           (map (\<lambda>i. i * clip_len) (py_range n)))"
  by (simp add: make_sequential_scenes_def)

lemma sample_probe_missing_binary:
  "get_video_length_seconds (sample_runtime (Inl FileNotFoundError)) ''video.mp4'' =
     Inr (Finite 0)"
  by (simp add: get_video_length_seconds_def sample_runtime_def)

lemma sample_probe_not_a_number:
  "get_video_length_seconds (sample_runtime (Inr ''N/A\<newline>'')) ''video.mp4'' =
     Inr (Finite 0)"
  by (simp add: get_video_length_seconds_def sample_runtime_def sample_strip_def
      sample_float_def is_ws_def)

lemma sample_probe_90:
  "get_video_length_seconds (sample_runtime (Inr ''90.000000\<newline>'')) ''video.mp4'' =
     Inr (Finite 90)"
  by (simp add: get_video_length_seconds_def sample_runtime_def sample_strip_def
      sample_float_def is_ws_def)

lemma sample_probe_10:
  "get_video_length_seconds (sample_runtime (Inr ''10.000000\<newline>'')) ''video.mp4'' =
     Inr (Finite 10)"
  by (simp add: get_video_length_seconds_def sample_runtime_def sample_strip_def
      sample_float_def is_ws_def)

lemma sample_scenes_probe_failed:
  "make_sequential_scenes (sample_runtime (Inl FileNotFoundError)) ''video.mp4'' 2 20 =
     Inr [(0, 0), (20, 0)]"
  by (simp add: make_sequential_scenes_finite [OF sample_probe_missing_binary]
      py_range_def py_trunc_def upto_rec1)

text \<open>
  C1, as stated: when the probe fails and returns \<open>0.0\<close>, the fallback called with
  count 2 and clip length 20 returns \<open>[(0,0),(20,20)]\<close>. The code returns the end
  \<open>min(20 + 20, 0) = 0\<close> for the second interval, not \<open>20\<close>.
\<close>

theorem fallback_probe_failed_not_20_20:
  "make_sequential_scenes (sample_runtime (Inl FileNotFoundError)) ''video.mp4'' 2 20 \<noteq>
     Inr [(0, 0), (20, 20)]"
  by (simp add: sample_scenes_probe_failed)

text \<open>
  C1, amended: when the probe fails and returns \<open>0.0\<close>, the fallback called with
  count 2 and clip length 20 returns exactly the two intervals \<open>[(0,0),(20,0)]\<close>,
  without raising.
\<close>

theorem fallback_probe_failed:
  "get_video_length_seconds rt path = Inr (Finite 0) \<Longrightarrow>
   make_sequential_scenes rt path 2 20 = Inr [(0, 0), (20, 0)]"
  by (simp add: make_sequential_scenes_finite py_range_def py_trunc_def upto_rec1)

theorem fallback_probe_failed_witness:
  "get_video_length_seconds (sample_runtime (Inl FileNotFoundError)) ''video.mp4'' =
     Inr (Finite 0) \<and>
   make_sequential_scenes (sample_runtime (Inl FileNotFoundError)) ''video.mp4'' 2 20 =
     Inr [(0, 0), (20, 0)]"
proof -
  note h = sample_probe_missing_binary
  show ?thesis using h fallback_probe_failed [OF h] by simp
qed

text \<open>
  C2: when the probe gives a duration \<open>d\<close>, for every non-negative count \<open>n\<close> (and
  every clip length) the fallback returns exactly \<open>n\<close> intervals, the \<open>i\<close>-th
  (from 0) with start \<open>i * clip_len\<close> and end \<open>min(start + clip_len, total)\<close>,
  where \<open>total\<close> is \<open>d\<close> truncated to whole seconds.
\<close>

theorem make_sequential_scenes_intervals:
  assumes "get_video_length_seconds rt path = Inr (Finite d)" and "0 \<le> n"
  shows "\<exists>scenes. make_sequential_scenes rt path n clip_len = Inr scenes \<and>
           int (length scenes) = n \<and>
           (\<forall>i < length scenes.
              scenes ! i =
                (int i * clip_len, min (int i * clip_len + clip_len) (py_trunc d)))"
  using assms
  by (simp add: make_sequential_scenes_finite length_py_range nth_py_range)

theorem make_sequential_scenes_intervals_witness:
  "get_video_length_seconds (sample_runtime (Inr ''90.000000\<newline>'')) ''video.mp4'' =
     Inr (Finite 90) \<and> (0::int) \<le> 3 \<and>
   (\<exists>scenes. make_sequential_scenes (sample_runtime (Inr ''90.000000\<newline>''))
               ''video.mp4'' 3 30 = Inr scenes \<and>
      int (length scenes) = 3 \<and>
      (\<forall>i < length scenes.
         scenes ! i = (int i * 30, min (int i * 30 + 30) (py_trunc 90))))"
proof -
  note h1 = sample_probe_90
  have h2: "(0::int) \<le> 3" by simp
  show ?thesis
    using h1 h2 make_sequential_scenes_intervals [OF h1 h2, of 30] by simp
qed

text \<open>
  C3, as stated: for every non-negative count and clip length, an interval whose
  start is below the total duration has \<open>start < end\<close>. It fails for the clip
  length 0: with a duration of 10 seconds the single interval is \<open>(0, 0)\<close>.
\<close>

theorem fallback_empty_interval_clip_len_0:
  "make_sequential_scenes (sample_runtime (Inr ''10.000000\<newline>'')) ''video.mp4'' 1 0 =
     Inr [(0, 0)] \<and>
   \<not> ((0::int) < py_trunc 10 \<longrightarrow> (0::int) < 0)"
  by (simp add: make_sequential_scenes_finite [OF sample_probe_10]
      py_range_def py_trunc_def upto_rec1)

text \<open>
  C3, amended: for every count and every positive clip length, every interval
  \<open>(start, end)\<close> returned by the fallback has \<open>start < end\<close> whenever the total
  duration (the probed duration truncated to whole seconds) is greater than
  \<open>start\<close>.
\<close>

theorem make_sequential_scenes_nonempty_intervals:
  assumes "get_video_length_seconds rt path = Inr (Finite d)"
    and "make_sequential_scenes rt path n clip_len = Inr scenes"
    and "0 < clip_len"
    and "(s, e) \<in> set scenes"
    and "s < py_trunc d"
  shows "s < e"
proof -
  from assms(1,2) have
    "scenes = map (\<lambda>s. (s, min (s + clip_len) (py_trunc d)))
                (map (\<lambda>i. i * clip_len) (py_range n))"
    by (simp add: make_sequential_scenes_finite)
  with assms(4) have "e = min (s + clip_len) (py_trunc d)"
    by auto
  with assms(3,5) show ?thesis
    by simp
qed

theorem make_sequential_scenes_nonempty_intervals_witness:
  "get_video_length_seconds (sample_runtime (Inr ''90.000000\<newline>'')) ''video.mp4'' =
     Inr (Finite 90) \<and>
   make_sequential_scenes (sample_runtime (Inr ''90.000000\<newline>'')) ''video.mp4'' 3 30 =
     Inr [(0, 30), (30, 60), (60, 90)] \<and>
   (0::int) < 30 \<and> (60, 90) \<in> set [(0, 30), (30, 60), (60, 90 :: int)] \<and>
   (60::int) < py_trunc 90 \<and> (60::int) < 90"
proof -
  note h1 = sample_probe_90
  have h2: "make_sequential_scenes (sample_runtime (Inr ''90.000000\<newline>''))
              ''video.mp4'' 3 30 = Inr [(0, 30), (30, 60), (60, 90)]"
    by (simp add: make_sequential_scenes_finite [OF h1] py_range_def py_trunc_def upto_rec1)
  have h3: "(0::int) < 30" by simp
  have h4: "(60, 90) \<in> set [(0, 30), (30, 60), (60, 90 :: int)]" by simp
  have h5: "(60::int) < py_trunc 90" by (simp add: py_trunc_def)
  show ?thesis
    using h1 h2 h3 h4 h5 make_sequential_scenes_nonempty_intervals [OF h1 h2 h3 h4 h5]
    by simp
qed

text \<open>
  C8: the probe does not propagate a failure of the inspection. When running the
  inspection tool or decoding its output raises an exception deriving from
  \<open>Exception\<close> (missing binary, unreadable file, undecodable output), and when its
  output is not a number, the probe returns \<open>0.0\<close>; when the output parses, the
  probe returns the parsed float. The probe raises only what \<open>except Exception\<close>
  does not catch, an exception raised by the call that does not derive from
  \<open>Exception\<close>.
\<close>

theorem get_video_length_seconds_no_fault:
  "(\<forall>e. check_output_text rt (ffprobe_cmd path) = Inl e \<longrightarrow> is_Exception e \<longrightarrow>
        get_video_length_seconds rt path = Inr (Finite 0)) \<and>
   (\<forall>out. check_output_text rt (ffprobe_cmd path) = Inr out \<longrightarrow>
        py_float rt (str_strip rt out) = None \<longrightarrow>
        get_video_length_seconds rt path = Inr (Finite 0)) \<and>
   (\<forall>out d. check_output_text rt (ffprobe_cmd path) = Inr out \<longrightarrow>
        py_float rt (str_strip rt out) = Some d \<longrightarrow>
        get_video_length_seconds rt path = Inr d) \<and>
   (\<forall>e. get_video_length_seconds rt path = Inl e \<longrightarrow>
        \<not> is_Exception e \<and> check_output_text rt (ffprobe_cmd path) = Inl e)"
  by (auto simp: get_video_length_seconds_def split: sum.splits option.splits if_splits)

theorem get_video_length_seconds_no_fault_witness:
  "(check_output_text (sample_runtime (Inl FileNotFoundError)) (ffprobe_cmd ''video.mp4'') =
      Inl FileNotFoundError \<and> is_Exception FileNotFoundError \<and>
    get_video_length_seconds (sample_runtime (Inl FileNotFoundError)) ''video.mp4'' =
      Inr (Finite 0)) \<and>
   (check_output_text (sample_runtime (Inr ''N/A\<newline>'')) (ffprobe_cmd ''video.mp4'') =
      Inr ''N/A\<newline>'' \<and>
    py_float (sample_runtime (Inr ''N/A\<newline>''))
      (str_strip (sample_runtime (Inr ''N/A\<newline>'')) ''N/A\<newline>'') = None \<and>
    get_video_length_seconds (sample_runtime (Inr ''N/A\<newline>'')) ''video.mp4'' =
      Inr (Finite 0)) \<and>
   (check_output_text (sample_runtime (Inr ''90.000000\<newline>'')) (ffprobe_cmd ''video.mp4'') =
      Inr ''90.000000\<newline>'' \<and>
    py_float (sample_runtime (Inr ''90.000000\<newline>''))
      (str_strip (sample_runtime (Inr ''90.000000\<newline>'')) ''90.000000\<newline>'') =
      Some (Finite 90) \<and>
    get_video_length_seconds (sample_runtime (Inr ''90.000000\<newline>'')) ''video.mp4'' =
      Inr (Finite 90)) \<and>
   (get_video_length_seconds (sample_runtime (Inl KeyboardInterrupt)) ''video.mp4'' =
      Inl KeyboardInterrupt \<and> \<not> is_Exception KeyboardInterrupt \<and>
    check_output_text (sample_runtime (Inl KeyboardInterrupt)) (ffprobe_cmd ''video.mp4'') =
      Inl KeyboardInterrupt)"
proof -
  let ?p = "''video.mp4''"
  have a1: "check_output_text (sample_runtime (Inl FileNotFoundError)) (ffprobe_cmd ?p) =
              Inl FileNotFoundError"
    by (simp add: sample_runtime_def)
  have a2: "is_Exception FileNotFoundError" by simp
  have b1: "check_output_text (sample_runtime (Inr ''N/A\<newline>'')) (ffprobe_cmd ?p) =
              Inr ''N/A\<newline>''"
    by (simp add: sample_runtime_def)
  have b2: "py_float (sample_runtime (Inr ''N/A\<newline>''))
              (str_strip (sample_runtime (Inr ''N/A\<newline>'')) ''N/A\<newline>'') = None"
    by (simp add: sample_runtime_def sample_strip_def sample_float_def is_ws_def)
  have c1: "check_output_text (sample_runtime (Inr ''90.000000\<newline>'')) (ffprobe_cmd ?p) =
              Inr ''90.000000\<newline>''"
    by (simp add: sample_runtime_def)
  have c2: "py_float (sample_runtime (Inr ''90.000000\<newline>''))
              (str_strip (sample_runtime (Inr ''90.000000\<newline>'')) ''90.000000\<newline>'') =
              Some (Finite 90)"
    by (simp add: sample_runtime_def sample_strip_def sample_float_def is_ws_def)
  have d1: "get_video_length_seconds (sample_runtime (Inl KeyboardInterrupt)) ?p =
              Inl KeyboardInterrupt"
    by (simp add: get_video_length_seconds_def sample_runtime_def)
  from a1 a2
    get_video_length_seconds_no_fault [of "sample_runtime (Inl FileNotFoundError)" ?p]
  have a: "get_video_length_seconds (sample_runtime (Inl FileNotFoundError)) ?p =
             Inr (Finite 0)"
    by blast
  from b1 b2
    get_video_length_seconds_no_fault [of "sample_runtime (Inr ''N/A\<newline>'')" ?p]
  have b: "get_video_length_seconds (sample_runtime (Inr ''N/A\<newline>'')) ?p =
             Inr (Finite 0)"
    by blast
  from c1 c2
    get_video_length_seconds_no_fault [of "sample_runtime (Inr ''90.000000\<newline>'')" ?p]
  have c: "get_video_length_seconds (sample_runtime (Inr ''90.000000\<newline>'')) ?p =
             Inr (Finite 90)"
    by blast
  from d1
    get_video_length_seconds_no_fault [of "sample_runtime (Inl KeyboardInterrupt)" ?p]
  have d: "\<not> is_Exception KeyboardInterrupt \<and>
           check_output_text (sample_runtime (Inl KeyboardInterrupt)) (ffprobe_cmd ?p) =
             Inl KeyboardInterrupt"
    by blast
  from a1 a2 a b1 b2 b c1 c2 c d1 d show ?thesis
    by blast
qed


section \<open>Destination names\<close>

lemma py_str_nat_nonempty: "py_str_nat n \<noteq> []"
  by (subst py_str_nat.simps) simp

lemma length_py_str_nat_small: "n < 10 \<Longrightarrow> length (py_str_nat n) = 1"
  by (subst py_str_nat.simps) simp

lemma length_py_str_nat_large: "\<not> n < 10 \<Longrightarrow> 2 \<le> length (py_str_nat n)"
proof -
  assume "\<not> n < 10"
  then have "py_str_nat n = py_str_nat (n div 10) @ [digit_char (n mod 10)]"
    by (subst py_str_nat.simps) simp
  moreover have "1 \<le> length (py_str_nat (n div 10))"
    using py_str_nat_nonempty [of "n div 10"] by (cases "py_str_nat (n div 10)") auto
  ultimately show ?thesis by simp
qed

lemma digit_char_inj: "a < 10 \<Longrightarrow> b < 10 \<Longrightarrow> digit_char a = digit_char b \<Longrightarrow> a = b"
proof -
  assume a: "a < 10" and b: "b < 10" and eq: "digit_char a = digit_char b"
  have d: "distinct ''0123456789''" by simp
  have "length ''0123456789'' = 10" by simp
  with a b eq d show ?thesis
    unfolding digit_char_def by (metis nth_eq_iff_index_eq)
qed

lemma digit_char_zero: "a < 10 \<Longrightarrow> digit_char a = CHR ''0'' \<Longrightarrow> a = 0"
  using digit_char_inj [of a 0] by (simp add: digit_char_def)

lemma py_str_nat_inj: "py_str_nat n = py_str_nat m \<Longrightarrow> n = m"
proof (induction n arbitrary: m rule: py_str_nat.induct)
  case (1 n)
  show ?case
  proof (cases "n < 10")
    case small_n: True
    show ?thesis
    proof (cases "m < 10")
      case True
      with small_n "1.prems" have "digit_char n = digit_char m"
        by (simp add: py_str_nat.simps [of n] py_str_nat.simps [of m])
      with small_n True show ?thesis by (rule digit_char_inj)
    next
      case False
      with small_n "1.prems" length_py_str_nat_small [of n] length_py_str_nat_large [of m]
      show ?thesis by simp
    qed
  next
    case large_n: False
    show ?thesis
    proof (cases "m < 10")
      case True
      with large_n "1.prems" length_py_str_nat_small [of m] length_py_str_nat_large [of n]
      show ?thesis by simp
    next
      case False
      with large_n "1.prems" have
        "py_str_nat (n div 10) @ [digit_char (n mod 10)] =
         py_str_nat (m div 10) @ [digit_char (m mod 10)]"
        by (simp add: py_str_nat.simps [of n] py_str_nat.simps [of m])
      then have q: "py_str_nat (n div 10) = py_str_nat (m div 10)"
        and r: "digit_char (n mod 10) = digit_char (m mod 10)"
        by simp_all
      have "n div 10 = m div 10" by (rule "1.IH" [OF large_n q])
      moreover from r have "n mod 10 = m mod 10" by (intro digit_char_inj) simp_all
      ultimately show ?thesis by (metis div_mult_mod_eq)
    qed
  qed
qed

lemma hd_py_str_nat: "0 < n \<Longrightarrow> hd (py_str_nat n) \<noteq> CHR ''0''"
proof (induction n rule: py_str_nat.induct)
  case (1 n)
  show ?case
  proof (cases "n < 10")
    case True
    then have "hd (py_str_nat n) = digit_char n"
      by (simp add: py_str_nat.simps [of n])
    with True "1.prems" digit_char_zero [of n] show ?thesis by auto
  next
    case False
    then have "hd (py_str_nat n) = hd (py_str_nat (n div 10))"
      using py_str_nat_nonempty [of "n div 10"]
      by (simp add: py_str_nat.simps [of n])
    moreover from False have "0 < n div 10" by simp
    ultimately show ?thesis using "1.IH" [OF False] by simp
  qed
qed

lemma fmt_02d_inj:
  assumes "0 < i" and "0 < j" and "fmt_02d i = fmt_02d j"
  shows "i = j"
proof -
  have pad: "fmt_02d k = (if nat k < 10 then CHR ''0'' # py_str_nat (nat k) else py_str_nat (nat k))"
    if "0 < k" for k
    using that length_py_str_nat_small [of "nat k"] length_py_str_nat_large [of "nat k"]
    by (auto simp: fmt_02d_def numeral_2_eq_2)
  have no_zero: "hd (py_str_nat (nat k)) \<noteq> CHR ''0''" if "0 < k" for k :: int
    using that by (simp add: hd_py_str_nat)
  have "py_str_nat (nat i) = py_str_nat (nat j)"
  proof (cases "nat i < 10")
    case si: True
    show ?thesis
    proof (cases "nat j < 10")
      case True
      with si assms pad show ?thesis by simp
    next
      case False
      with si assms pad [of i] pad [of j] no_zero [of j] show ?thesis
        by (metis list.sel(1))
    qed
  next
    case li: False
    show ?thesis
    proof (cases "nat j < 10")
      case True
      with li assms pad [of i] pad [of j] no_zero [of i] show ?thesis
        by (metis list.sel(1))
    next
      case False
      with li assms pad show ?thesis by simp
    qed
  qed
  then have "nat i = nat j" by (rule py_str_nat_inj)
  with assms show ?thesis by simp
qed

lemma short_relpath_eq: "short_relpath i = ''shorts/short_'' @ fmt_02d (int i + 1) @ ''.mp4''"
  by (simp add: short_relpath_def path_join_def)

lemma short_relpath_inj: "short_relpath i = short_relpath j \<Longrightarrow> i = j"
proof -
  assume "short_relpath i = short_relpath j"
  then have "fmt_02d (int i + 1) = fmt_02d (int j + 1)"
    by (simp add: short_relpath_eq)
  then have "int i + 1 = int j + 1"
    by (intro fmt_02d_inj) simp_all
  then show ?thesis by simp
qed

section \<open>Properties of the renderer and of the loop over the selection\<close>

lemma create_short_failure:
  assumes "run_process rt (ffmpeg_cmd (abspath rt video) start dur (abspath rt out)) (files w)
             = (Inr raw, d)"
    and "py_decode rt (raw_stdout raw) = Some text_out"
    and "py_decode rt (raw_stderr raw) = Some text_err"
    and "exit_status raw \<noteq> 0"
  shows "create_short rt video start dur out w =
           (Inl (CalledProcessError (exit_status raw)
                  (ffmpeg_cmd (abspath rt video) start dur (abspath rt out))),
            w\<lparr>console := console w @
                   [''FFmpeg input: '' @ abspath rt video,
                    ''FFmpeg output: '' @ abspath rt out,
                    ffmpeg_failed_line,
                    text_err],
               files := d,
               started := started w @
                   [ffmpeg_cmd (abspath rt video) start dur (abspath rt out)]\<rparr>)"
  using assms
  by (simp add: create_short_def subprocess_run_def py_print_def Let_def)

lemma create_short_success:
  assumes "run_process rt (ffmpeg_cmd (abspath rt video) start dur (abspath rt out)) (files w)
             = (Inr raw, d)"
    and "py_decode rt (raw_stdout raw) = Some text_out"
    and "py_decode rt (raw_stderr raw) = Some text_err"
    and "exit_status raw = 0"
  shows "create_short rt video start dur out w =
           (Inr (),
            w\<lparr>console := console w @
                   [''FFmpeg input: '' @ abspath rt video,
                    ''FFmpeg output: '' @ abspath rt out],
               files := d,
               started := started w @
                   [ffmpeg_cmd (abspath rt video) start dur (abspath rt out)]\<rparr>)"
  using assms
  by (simp add: create_short_def subprocess_run_def py_print_def Let_def)

lemma create_short_undecodable:
  assumes "run_process rt (ffmpeg_cmd (abspath rt video) start dur (abspath rt out)) (files w)
             = (Inr raw, d)"
    and "py_decode rt (raw_stdout raw) = None \<or> py_decode rt (raw_stderr raw) = None"
  shows "create_short rt video start dur out w =
           (Inl UnicodeDecodeError,
            w\<lparr>console := console w @
                   [''FFmpeg input: '' @ abspath rt video,
                    ''FFmpeg output: '' @ abspath rt out],
               files := d,
               started := started w @
                   [ffmpeg_cmd (abspath rt video) start dur (abspath rt out)]\<rparr>)"
  using assms
  by (auto simp: create_short_def subprocess_run_def py_print_def Let_def split: option.splits)

lemma create_short_not_started:
  assumes "run_process rt (ffmpeg_cmd (abspath rt video) start dur (abspath rt out)) (files w)
             = (Inl e, d)"
  shows "create_short rt video start dur out w =
           (Inl e,
            w\<lparr>console := console w @
                   [''FFmpeg input: '' @ abspath rt video,
                    ''FFmpeg output: '' @ abspath rt out],
               files := d,
               started := started w @
                   [ffmpeg_cmd (abspath rt video) start dur (abspath rt out)]\<rparr>)"
  using assms
  by (simp add: create_short_def subprocess_run_def py_print_def Let_def)

lemma create_short_started:
  "started (snd (create_short rt video start dur out w)) =
     started w @ [ffmpeg_cmd (abspath rt video) start dur (abspath rt out)]"
proof -
  let ?cmd = "ffmpeg_cmd (abspath rt video) start dur (abspath rt out)"
  obtain r d where run: "run_process rt ?cmd (files w) = (r, d)"
    by (cases "run_process rt ?cmd (files w)") auto
  show ?thesis
  proof (cases r)
    case (Inl e)
    with run show ?thesis by (simp add: create_short_not_started)
  next
    case (Inr raw)
    show ?thesis
    proof (cases "py_decode rt (raw_stdout raw) = None \<or> py_decode rt (raw_stderr raw) = None")
      case True
      with run Inr show ?thesis by (simp add: create_short_undecodable)
    next
      case False
      then obtain text_out text_err where
        dec: "py_decode rt (raw_stdout raw) = Some text_out"
             "py_decode rt (raw_stderr raw) = Some text_err"
        by auto
      show ?thesis
      proof (cases "exit_status raw = 0")
        case True
        with run Inr dec show ?thesis by (simp add: create_short_success)
      next
        case False
        with run Inr dec show ?thesis by (simp add: create_short_failure)
      qed
    qed
  qed
qed

lemma main_loop_append:
  "main_loop to_int rt video dur (xs @ ys) w =
     (case main_loop to_int rt video dur xs w of
        (Inl e, w') \<Rightarrow> (Inl e, w')
      | (Inr u, w') \<Rightarrow> main_loop to_int rt video dur ys w')"
proof (induction xs arbitrary: w)
  case Nil
  then show ?case by simp
next
  case (Cons x xs)
  obtain i sstart send where x: "x = (i, sstart, send)"
    by (cases x) auto
  show ?case
    by (simp add: x Let_def Cons.IH split: prod.splits sum.splits)
qed

text \<open>Any exception raised by \<open>create_short\<close> ends the loop: no later job is run.\<close>

lemma main_loop_fault:
  assumes "create_short rt video (to_int sstart) dur (short_path rt i)
             (py_print [''\<newline>Creating short ->'', short_path rt i] w) = (Inl e, w2)"
  shows "main_loop to_int rt video dur ((i, sstart, send) # post) w = (Inl e, w2)"
  using assms by (simp add: Let_def)

lemma create_shorts_fault:
  assumes "create_shorts to_int rt video dur pre w = (Inr (), w1)"
    and "create_short rt video (to_int sstart) dur (short_path rt (length pre))
           (py_print [''\<newline>Creating short ->'', short_path rt (length pre)] w1) = (Inl e, w2)"
  shows "create_shorts to_int rt video dur (pre @ (sstart, send) # post) w = (Inl e, w2)"
proof -
  have split_jobs:
    "enumerate 0 (pre @ (sstart, send) # post) =
       enumerate 0 pre @ (length pre, sstart, send) # enumerate (Suc (length pre)) post"
    by (simp add: enumerate_append_eq)
  from assms(1) have "main_loop to_int rt video dur (enumerate 0 pre) w = (Inr (), w1)"
    by (simp add: create_shorts_def)
  then have
    "create_shorts to_int rt video dur (pre @ (sstart, send) # post) w =
       main_loop to_int rt video dur
         ((length pre, sstart, send) # enumerate (Suc (length pre)) post) w1"
    by (simp add: create_shorts_def split_jobs main_loop_append)
  also have "\<dots> = (Inl e, w2)"
    using assms(2) by (rule main_loop_fault)
  finally show ?thesis .
qed

lemma main_loop_started:
  "\<exists>k \<le> length jobs.
     started (snd (main_loop to_int rt video dur jobs w)) =
       started w @
       map (\<lambda>(i, sstart, send).
              ffmpeg_cmd (abspath rt video) (to_int sstart) dur (abspath rt (short_path rt i)))
           (take k jobs) \<and>
     (fst (main_loop to_int rt video dur jobs w) = Inr () \<longrightarrow> k = length jobs)"
proof (induction jobs arbitrary: w)
  case Nil
  then show ?case by simp
next
  case (Cons job jobs)
  obtain i sstart send where job: "job = (i, sstart, send)"
    by (cases job) auto
  let ?cmd = "\<lambda>(i, sstart, send).
     ffmpeg_cmd (abspath rt video) (to_int sstart) dur (abspath rt (short_path rt i))"
  let ?w1 = "py_print [''\<newline>Creating short ->'', short_path rt i] w"
  let ?res = "create_short rt video (to_int sstart) dur (short_path rt i) ?w1"
  have st: "started (snd ?res) = started w @ [?cmd job]"
    by (simp add: create_short_started job py_print_def)
  obtain r w2 where res: "?res = (r, w2)"
    by (cases ?res) auto
  from st res have st2: "started w2 = started w @ [?cmd job]"
    by simp
  show ?case
  proof (cases r)
    case (Inl e)
    with res have "main_loop to_int rt video dur (job # jobs) w = (Inl e, w2)"
      by (simp add: job Let_def)
    with st2 have
      "started (snd (main_loop to_int rt video dur (job # jobs) w)) =
         started w @ map ?cmd (take 1 (job # jobs)) \<and>
       (fst (main_loop to_int rt video dur (job # jobs) w) = Inr () \<longrightarrow>
          1 = length (job # jobs))"
      by simp
    moreover have "1 \<le> length (job # jobs)" by simp
    ultimately show ?thesis by blast
  next
    case (Inr u)
    let ?w3 = "py_print [''Finished ->'', short_path rt i] w2"
    from Inr res have step:
      "main_loop to_int rt video dur (job # jobs) w = main_loop to_int rt video dur jobs ?w3"
      by (simp add: job Let_def)
    obtain k where k: "k \<le> length jobs"
      and ks: "started (snd (main_loop to_int rt video dur jobs ?w3)) =
                 started ?w3 @ map ?cmd (take k jobs)"
      and kl: "fst (main_loop to_int rt video dur jobs ?w3) = Inr () \<longrightarrow> k = length jobs"
      using Cons.IH [of ?w3] by blast
    have "started ?w3 = started w @ [?cmd job]"
      using st2 by (simp add: py_print_def)
    with ks kl step have
      "started (snd (main_loop to_int rt video dur (job # jobs) w)) =
         started w @ map ?cmd (take (Suc k) (job # jobs)) \<and>
       (fst (main_loop to_int rt video dur (job # jobs) w) = Inr () \<longrightarrow>
          Suc k = length (job # jobs))"
      by simp
    moreover from k have "Suc k \<le> length (job # jobs)" by simp
    ultimately show ?thesis by blast
  qed
qed

lemma main_loop_ignores_end:
  "map (\<lambda>(i, sstart, send). (i, sstart)) jobs' = map (\<lambda>(i, sstart, send). (i, sstart)) jobs \<Longrightarrow>
   main_loop to_int rt video dur jobs' w = main_loop to_int rt video dur jobs w"
proof (induction jobs arbitrary: jobs' w)
  case Nil
  then show ?case by simp
next
  case (Cons job jobs)
  obtain i sstart send where job: "job = (i, sstart, send)"
    by (cases job) auto
  from Cons.prems obtain job' rest' where jobs': "jobs' = job' # rest'"
    by (cases jobs') auto
  obtain i' sstart' send' where job': "job' = (i', sstart', send')"
    by (cases job') auto
  from Cons.prems have same: "i' = i" "sstart' = sstart"
    and rest: "map (\<lambda>(i, sstart, send). (i, sstart)) rest' =
               map (\<lambda>(i, sstart, send). (i, sstart)) jobs"
    by (simp_all add: jobs' job job')
  have tail: "main_loop to_int rt video dur rest' v = main_loop to_int rt video dur jobs v"
    for v
    using Cons.IH [OF rest] .
  show ?case
    by (simp add: jobs' job job' same tail Let_def split: prod.splits sum.splits)
qed

lemma enumerate_starts:
  "map (\<lambda>(i, sstart, send). (i, sstart)) (enumerate n chosen) = enumerate n (map fst chosen)"
  by (induction chosen arbitrary: n) auto

lemma create_shorts_ignores_end:
  "map fst chosen' = map fst chosen \<Longrightarrow>
   create_shorts to_int rt video dur chosen' w = create_shorts to_int rt video dur chosen w"
  unfolding create_shorts_def
  by (rule main_loop_ignores_end) (simp add: enumerate_starts)

text \<open>
  The job after the successful jobs \<open>pre\<close>: what the run does when its encoder
  exits with a non-zero status and its captured streams decode, and when they do
  not decode.
\<close>

lemma create_shorts_failing_job:
  assumes earlier: "create_shorts to_int rt video dur pre w = (Inr (), w1)"
    and cmd: "cmd = ffmpeg_cmd (abspath rt video) (to_int sstart) dur
                      (abspath rt (short_path rt (length pre)))"
    and run: "run_process rt cmd (files w1) = (Inr raw, d)"
    and out: "py_decode rt (raw_stdout raw) = Some text_out"
    and err: "py_decode rt (raw_stderr raw) = Some text_err"
    and fail: "exit_status raw \<noteq> 0"
  shows "create_shorts to_int rt video dur (pre @ (sstart, send) # post) w =
           (Inl (CalledProcessError (exit_status raw) cmd),
            w1\<lparr>console := console w1 @
                   [''\<newline>Creating short -> '' @ short_path rt (length pre),
                    ''FFmpeg input: '' @ abspath rt video,
                    ''FFmpeg output: '' @ abspath rt (short_path rt (length pre)),
                    ffmpeg_failed_line,
                    text_err],
               files := d,
               started := started w1 @ [cmd]\<rparr>)"
proof -
  let ?w = "py_print [''\<newline>Creating short ->'', short_path rt (length pre)] w1"
  have "run_process rt
          (ffmpeg_cmd (abspath rt video) (to_int sstart) dur
             (abspath rt (short_path rt (length pre)))) (files ?w) = (Inr raw, d)"
    using run by (simp add: cmd py_print_def)
  from create_short_failure [OF this out err fail]
  have "create_short rt video (to_int sstart) dur (short_path rt (length pre)) ?w =
          (Inl (CalledProcessError (exit_status raw) cmd),
           w1\<lparr>console := console w1 @
                   [''\<newline>Creating short -> '' @ short_path rt (length pre),
                    ''FFmpeg input: '' @ abspath rt video,
                    ''FFmpeg output: '' @ abspath rt (short_path rt (length pre)),
                    ffmpeg_failed_line,
                    text_err],
               files := d,
               started := started w1 @ [cmd]\<rparr>)"
    by (simp add: cmd py_print_def)
  with earlier show ?thesis
    by (rule create_shorts_fault)
qed

lemma create_shorts_undecodable_job:
  assumes earlier: "create_shorts to_int rt video dur pre w = (Inr (), w1)"
    and cmd: "cmd = ffmpeg_cmd (abspath rt video) (to_int sstart) dur
                      (abspath rt (short_path rt (length pre)))"
    and run: "run_process rt cmd (files w1) = (Inr raw, d)"
    and garbled: "py_decode rt (raw_stdout raw) = None \<or> py_decode rt (raw_stderr raw) = None"
  shows "create_shorts to_int rt video dur (pre @ (sstart, send) # post) w =
           (Inl UnicodeDecodeError,
            w1\<lparr>console := console w1 @
                   [''\<newline>Creating short -> '' @ short_path rt (length pre),
                    ''FFmpeg input: '' @ abspath rt video,
                    ''FFmpeg output: '' @ abspath rt (short_path rt (length pre))],
               files := d,
               started := started w1 @ [cmd]\<rparr>)"
proof -
  let ?w = "py_print [''\<newline>Creating short ->'', short_path rt (length pre)] w1"
  have "run_process rt
          (ffmpeg_cmd (abspath rt video) (to_int sstart) dur
             (abspath rt (short_path rt (length pre)))) (files ?w) = (Inr raw, d)"
    using run by (simp add: cmd py_print_def)
  from create_short_undecodable [OF this garbled]
  have "create_short rt video (to_int sstart) dur (short_path rt (length pre)) ?w =
          (Inl UnicodeDecodeError,
           w1\<lparr>console := console w1 @
                   [''\<newline>Creating short -> '' @ short_path rt (length pre),
                    ''FFmpeg input: '' @ abspath rt video,
                    ''FFmpeg output: '' @ abspath rt (short_path rt (length pre))],
               files := d,
               started := started w1 @ [cmd]\<rparr>)"
    by (simp add: cmd py_print_def)
  with earlier show ?thesis
    by (rule create_shorts_fault)
qed

text \<open>
  The outputs of the other jobs after a failing job. The program does nothing to
  the disk but run the encoder, so when the failing encoder process changed no
  file but its destination, and \<open>os.path.abspath\<close> keeps the destinations of
  different names apart, the file of every other job is as it was before.
\<close>

lemma other_outputs_untouched:
  assumes cmd: "cmd = ffmpeg_cmd (abspath rt video) start dur (abspath rt (short_path rt i))"
    and frame: "\<forall>p. p \<noteq> last cmd \<longrightarrow> d p = d0 p"
    and apart: "\<forall>j. abspath rt (short_path rt j) = abspath rt (short_path rt i) \<longrightarrow>
                    short_relpath j = short_relpath i"
    and other: "j \<noteq> i"
  shows "d (abspath rt (short_path rt j)) = d0 (abspath rt (short_path rt j))"
proof -
  have "last cmd = abspath rt (short_path rt i)"
    by (simp add: cmd ffmpeg_cmd_def)
  moreover have "abspath rt (short_path rt j) \<noteq> abspath rt (short_path rt i)"
    using apart other short_relpath_inj by blast
  ultimately show ?thesis
    using frame by simp
qed

text \<open>
  Together: a job whose encoder exits with a non-zero status and decodable streams
  ends the run with CalledProcessError, after the failure line and the captured
  standard error have been printed; its command is the last one handed to
  \<open>subprocess.run\<close>; and the outputs of the jobs before it are untouched, when the
  failing encoder process changed no file but its destination and
  \<open>os.path.abspath\<close> keeps the destinations apart.
\<close>

lemma render_fault_reported:
  assumes earlier: "create_shorts to_int rt video dur pre w = (Inr (), w1)"
    and cmd: "cmd = ffmpeg_cmd (abspath rt video) (to_int sstart) dur
                      (abspath rt (short_path rt (length pre)))"
    and run: "run_process rt cmd (files w1) = (Inr raw, d)"
    and out: "py_decode rt (raw_stdout raw) = Some text_out"
    and err: "py_decode rt (raw_stderr raw) = Some text_err"
    and fail: "exit_status raw \<noteq> 0"
    and frame: "\<forall>p. p \<noteq> last cmd \<longrightarrow> d p = files w1 p"
    and apart: "\<forall>j. abspath rt (short_path rt j) = abspath rt (short_path rt (length pre)) \<longrightarrow>
                    short_relpath j = short_relpath (length pre)"
  shows "\<exists>w2. create_shorts to_int rt video dur (pre @ (sstart, send) # post) w =
                (Inl (CalledProcessError (exit_status raw) cmd), w2) \<and>
              console w2 = console w1 @
                [''\<newline>Creating short -> '' @ short_path rt (length pre),
                 ''FFmpeg input: '' @ abspath rt video,
                 ''FFmpeg output: '' @ abspath rt (short_path rt (length pre)),
                 ffmpeg_failed_line,
                 text_err] \<and>
              started w2 = started w1 @ [cmd] \<and>
              (\<forall>j < length pre.
                 files w2 (abspath rt (short_path rt j)) =
                 files w1 (abspath rt (short_path rt j)))"
proof -
  have "\<forall>j < length pre.
          d (abspath rt (short_path rt j)) = files w1 (abspath rt (short_path rt j))"
    using other_outputs_untouched [OF cmd frame apart] by simp
  then show ?thesis
    unfolding create_shorts_failing_job [OF earlier cmd run out err fail]
    by simp
qed

section \<open>Sample runs\<close>

lemma py_trunc_sample: "py_trunc (31 / 2) = 15"
  unfolding py_trunc_def by code_simp

lemma sample_short_path_0: "short_path (sample_runtime p) 0 = ''/work/shorts/short_01.mp4''"
  by (simp add: short_path_def short_relpath_def path_join_def fmt_02d_def py_str_nat.simps
      digit_char_def sample_runtime_def sample_abspath_def)

lemma sample_short_path_1: "short_path (sample_runtime p) (Suc 0) = ''/work/shorts/short_02.mp4''"
  by (simp add: short_path_def short_relpath_def path_join_def fmt_02d_def py_str_nat.simps
      digit_char_def sample_runtime_def sample_abspath_def)

lemma sample_abspath_video: "abspath (sample_runtime p) ''video.mp4'' = ''/work/video.mp4''"
  by (simp add: sample_runtime_def sample_abspath_def)

lemma sample_abspath_abs:
  "abspath (sample_runtime p) (CHR ''/'' # rest) = CHR ''/'' # rest"
  by (simp add: sample_runtime_def sample_abspath_def)

lemma py_str_samples:
  "py_str 15 = ''15''" "py_str 10 = ''10''" "py_str 0 = ''0''" "py_str 30 = ''30''"
  "py_str 20 = ''20''"
  by (simp_all add: py_str_def py_str_nat.simps digit_char_def)

lemma py_trunc_zero: "py_trunc 0 = 0"
  by (simp add: py_trunc_def)

lemma sample_decode_text: "CHR 0xFF \<notin> set b \<Longrightarrow> py_decode (sample_runtime p) b = Some b"
  by (simp add: sample_runtime_def sample_decode_def)

lemma sample_decode_garbled: "py_decode (sample_runtime p) [CHR 0xFF] = None"
  by (simp add: sample_runtime_def sample_decode_def)

lemma sample_run_15:
  "run_process (sample_runtime p) (ffmpeg_cmd a 15 t out) d =
     (Inr \<lparr>exit_status = 0, raw_stdout = [], raw_stderr = []\<rparr>,
      d(out \<mapsto> ''clip from 15''))"
  by (simp add: sample_runtime_def sample_encoder_def ffmpeg_cmd_def py_str_samples)

lemma sample_run_0:
  "run_process (sample_runtime p) (ffmpeg_cmd a 0 t out) d =
     (Inr \<lparr>exit_status = 0, raw_stdout = [], raw_stderr = []\<rparr>,
      d(out \<mapsto> ''clip from 0''))"
  by (simp add: sample_runtime_def sample_encoder_def ffmpeg_cmd_def py_str_samples)

lemma sample_run_10:
  "run_process (sample_runtime p) (ffmpeg_cmd a 10 t out) d = (Inr sample_failure, d)"
  by (simp add: sample_runtime_def sample_encoder_def ffmpeg_cmd_def py_str_samples
      sample_failure_def)

lemma sample_run_20:
  "run_process (sample_runtime p) (ffmpeg_cmd a 20 t out) d = (Inr sample_garbled_failure, d)"
  by (simp add: sample_runtime_def sample_encoder_def ffmpeg_cmd_def py_str_samples
      sample_garbled_failure_def)

lemma sample_create_short_15:
  "create_short (sample_runtime p) video 15 dur out w =
     (Inr (),
      w\<lparr>console := console w @
             [''FFmpeg input: '' @ abspath (sample_runtime p) video,
              ''FFmpeg output: '' @ abspath (sample_runtime p) out],
         files := (files w)(abspath (sample_runtime p) out \<mapsto> ''clip from 15''),
         started := started w @
             [ffmpeg_cmd (abspath (sample_runtime p) video) 15 dur
                (abspath (sample_runtime p) out)]\<rparr>)"
  by (rule create_short_success [OF sample_run_15]) (simp_all add: sample_decode_text)

lemma sample_create_short_0:
  "create_short (sample_runtime p) video 0 dur out w =
     (Inr (),
      w\<lparr>console := console w @
             [''FFmpeg input: '' @ abspath (sample_runtime p) video,
              ''FFmpeg output: '' @ abspath (sample_runtime p) out],
         files := (files w)(abspath (sample_runtime p) out \<mapsto> ''clip from 0''),
         started := started w @
             [ffmpeg_cmd (abspath (sample_runtime p) video) 0 dur
                (abspath (sample_runtime p) out)]\<rparr>)"
  by (rule create_short_success [OF sample_run_0]) (simp_all add: sample_decode_text)

lemma sample_first_job:
  "create_shorts to_int (sample_runtime p) ''video.mp4'' 30 [(s, e)] empty_world =
     (Inr (), sample_world_1)" if "to_int s = 15"
  using that
  by (simp add: create_shorts_def Let_def sample_short_path_0 sample_abspath_video
      sample_abspath_abs py_print_def sample_create_short_15 empty_world_def
      sample_world_1_def)

lemma sample_two_jobs:
  "create_shorts py_trunc (sample_runtime p) ''video.mp4'' 30 [(31 / 2, e1), (0, e2)]
     empty_world =
   (Inr (),
    \<lparr>console =
        [''\<newline>Creating short -> /work/shorts/short_01.mp4'',
         ''FFmpeg input: /work/video.mp4'',
         ''FFmpeg output: /work/shorts/short_01.mp4'',
         ''Finished -> /work/shorts/short_01.mp4'',
         ''\<newline>Creating short -> /work/shorts/short_02.mp4'',
         ''FFmpeg input: /work/video.mp4'',
         ''FFmpeg output: /work/shorts/short_02.mp4'',
         ''Finished -> /work/shorts/short_02.mp4''],
      files = [''/work/shorts/short_01.mp4'' \<mapsto> ''clip from 15'',
               ''/work/shorts/short_02.mp4'' \<mapsto> ''clip from 0''],
      started = [ffmpeg_cmd ''/work/video.mp4'' 15 30 ''/work/shorts/short_01.mp4'',
                 ffmpeg_cmd ''/work/video.mp4'' 0 30 ''/work/shorts/short_02.mp4'']\<rparr>)"
  by (simp add: create_shorts_def Let_def sample_short_path_0 sample_short_path_1
      sample_abspath_video sample_abspath_abs py_print_def py_trunc_sample
      sample_create_short_15 sample_create_short_0 py_trunc_zero empty_world_def)

section \<open>The render loop: faults and render jobs\<close>

text \<open>
  The sample run in which the second encoder exits with status 1 and a message on
  its standard error: the failure line and the message are printed,
  CalledProcessError is raised and the third job is not run.
\<close>

lemma sample_render_fault_reported:
  "create_shorts (\<lambda>x. x) (sample_runtime (Inr [])) ''video.mp4'' 30
     [(15, 45), (10, 15), (0, 10)] empty_world =
   (Inl (CalledProcessError 1
          (ffmpeg_cmd ''/work/video.mp4'' 10 30 ''/work/shorts/short_02.mp4'')),
    \<lparr>console =
        [''\<newline>Creating short -> /work/shorts/short_01.mp4'',
         ''FFmpeg input: /work/video.mp4'',
         ''FFmpeg output: /work/shorts/short_01.mp4'',
         ''Finished -> /work/shorts/short_01.mp4'',
         ''\<newline>Creating short -> /work/shorts/short_02.mp4'',
         ''FFmpeg input: /work/video.mp4'',
         ''FFmpeg output: /work/shorts/short_02.mp4'',
         ffmpeg_failed_line,
         ''Invalid data found''],
      files = [''/work/shorts/short_01.mp4'' \<mapsto> ''clip from 15''],
      started = [ffmpeg_cmd ''/work/video.mp4'' 15 30 ''/work/shorts/short_01.mp4'',
                 ffmpeg_cmd ''/work/video.mp4'' 10 30 ''/work/shorts/short_02.mp4'']\<rparr>)"
proof -
  let ?rt = "sample_runtime (Inr [])"
  let ?cmd = "ffmpeg_cmd ''/work/video.mp4'' 10 30 ''/work/shorts/short_02.mp4''"
  have h1: "create_shorts (\<lambda>x. x) ?rt ''video.mp4'' 30 [(15, 45)] empty_world =
              (Inr (), sample_world_1)"
    by (rule sample_first_job) simp
  have h2: "?cmd = ffmpeg_cmd (abspath ?rt ''video.mp4'') ((\<lambda>x. x) 10) 30
                     (abspath ?rt (short_path ?rt (length [(15 :: int, 45 :: int)])))"
    by (simp add: sample_short_path_1 sample_abspath_video sample_abspath_abs)
  have h3: "run_process ?rt ?cmd (files sample_world_1) =
              (Inr sample_failure, files sample_world_1)"
    by (rule sample_run_10)
  have h4: "py_decode ?rt (raw_stdout sample_failure) = Some []"
    by (simp add: sample_decode_text sample_failure_def)
  have h5: "py_decode ?rt (raw_stderr sample_failure) = Some ''Invalid data found''"
    by (simp add: sample_decode_text sample_failure_def)
  have h6: "exit_status sample_failure \<noteq> 0"
    by (simp add: sample_failure_def)
  show ?thesis
    using create_shorts_failing_job [OF h1 h2 h3 h4 h5 h6, of 15 "[(0, 10)]"]
    by (simp add: sample_short_path_1 sample_abspath_video sample_abspath_abs
        sample_failure_def sample_world_1_def)
qed

text \<open>
  C9: when the encoder of a render job exits with a non-zero status, the renderer
  prints the captured standard error and raises, and the loop runs no later job.
  The code does so only when the captured streams decode as text. It reads them
  with \<open>text=True\<close>, so when the standard error of the failing encoder holds a
  byte that does not decode, \<open>subprocess.run\<close> itself raises UnicodeDecodeError
  before the return code is tested: in the run below the second encoder exits with
  status 1, and the run ends with UnicodeDecodeError, having printed neither the
  failure line nor anything of the standard error. The later job is not run and
  the output of the first job is still on the disk.
\<close>

theorem render_fault_undecodable_stderr:
  "run_process (sample_runtime (Inr []))
     (ffmpeg_cmd ''/work/video.mp4'' 20 30 ''/work/shorts/short_02.mp4'')
     (files sample_world_1) = (Inr sample_garbled_failure, files sample_world_1) \<and>
   exit_status sample_garbled_failure = 1 \<and>
   py_decode (sample_runtime (Inr [])) (raw_stderr sample_garbled_failure) = None \<and>
   create_shorts (\<lambda>x. x) (sample_runtime (Inr [])) ''video.mp4'' 30
     [(15, 45), (20, 25), (0, 10)] empty_world =
   (Inl UnicodeDecodeError,
    \<lparr>console =
        [''\<newline>Creating short -> /work/shorts/short_01.mp4'',
         ''FFmpeg input: /work/video.mp4'',
         ''FFmpeg output: /work/shorts/short_01.mp4'',
         ''Finished -> /work/shorts/short_01.mp4'',
         ''\<newline>Creating short -> /work/shorts/short_02.mp4'',
         ''FFmpeg input: /work/video.mp4'',
         ''FFmpeg output: /work/shorts/short_02.mp4''],
      files = [''/work/shorts/short_01.mp4'' \<mapsto> ''clip from 15''],
      started = [ffmpeg_cmd ''/work/video.mp4'' 15 30 ''/work/shorts/short_01.mp4'',
                 ffmpeg_cmd ''/work/video.mp4'' 20 30 ''/work/shorts/short_02.mp4'']\<rparr>)"
proof -
  let ?rt = "sample_runtime (Inr [])"
  let ?cmd = "ffmpeg_cmd ''/work/video.mp4'' 20 30 ''/work/shorts/short_02.mp4''"
  have h1: "create_shorts (\<lambda>x. x) ?rt ''video.mp4'' 30 [(15, 45)] empty_world =
              (Inr (), sample_world_1)"
    by (rule sample_first_job) simp
  have h2: "?cmd = ffmpeg_cmd (abspath ?rt ''video.mp4'') ((\<lambda>x. x) 20) 30
                     (abspath ?rt (short_path ?rt (length [(15 :: int, 45 :: int)])))"
    by (simp add: sample_short_path_1 sample_abspath_video sample_abspath_abs)
  have h3: "run_process ?rt ?cmd (files sample_world_1) =
              (Inr sample_garbled_failure, files sample_world_1)"
    by (rule sample_run_20)
  have status: "exit_status sample_garbled_failure = 1"
    by (simp add: sample_garbled_failure_def)
  have garbled: "py_decode ?rt (raw_stderr sample_garbled_failure) = None"
    by (simp add: sample_garbled_failure_def sample_decode_garbled)
  then have h4: "py_decode ?rt (raw_stdout sample_garbled_failure) = None \<or>
                 py_decode ?rt (raw_stderr sample_garbled_failure) = None"
    by (rule disjI2)
  have run: "create_shorts (\<lambda>x. x) ?rt ''video.mp4'' 30 [(15, 45), (20, 25), (0, 10)]
               empty_world =
     (Inl UnicodeDecodeError,
      \<lparr>console =
        [''\<newline>Creating short -> /work/shorts/short_01.mp4'',
         ''FFmpeg input: /work/video.mp4'',
         ''FFmpeg output: /work/shorts/short_01.mp4'',
         ''Finished -> /work/shorts/short_01.mp4'',
         ''\<newline>Creating short -> /work/shorts/short_02.mp4'',
         ''FFmpeg input: /work/video.mp4'',
         ''FFmpeg output: /work/shorts/short_02.mp4''],
      files = [''/work/shorts/short_01.mp4'' \<mapsto> ''clip from 15''],
      started = [ffmpeg_cmd ''/work/video.mp4'' 15 30 ''/work/shorts/short_01.mp4'', ?cmd]\<rparr>)"
    using create_shorts_undecodable_job [OF h1 h2 h3 h4, of 25 "[(0, 10)]"]
    by (simp add: sample_short_path_1 sample_abspath_video sample_abspath_abs
        sample_world_1_def)
  show ?thesis
    by (intro conjI h3 status garbled run)
qed

text \<open>
  C10: every encoder command the loop starts is the command of its interval, with
  the seek offset \<open>-ss\<close> equal to \<open>int(start)\<close> and the duration \<open>-t\<close> equal to
  the clip length given by the user; the commands are started in selection order,
  all of them when the run ends normally. The end times of the intervals play no
  part: two selections with the same start times give the same run.
\<close>

theorem render_jobs_fixed_duration:
  "(\<exists>k \<le> length chosen.
      started (snd (create_shorts to_int rt video dur chosen w)) =
        started w @
        map (\<lambda>(i, sstart, send).
               ffmpeg_cmd (abspath rt video) (to_int sstart) dur (abspath rt (short_path rt i)))
            (take k (enumerate 0 chosen)) \<and>
      (fst (create_shorts to_int rt video dur chosen w) = Inr () \<longrightarrow> k = length chosen)) \<and>
   (\<forall>chosen'. map fst chosen' = map fst chosen \<longrightarrow>
      create_shorts to_int rt video dur chosen' w =
      create_shorts to_int rt video dur chosen w) \<and>
   (\<forall>inp start duration out.
      take 7 (ffmpeg_cmd inp start duration out) =
        [''ffmpeg'', ''-ss'', py_str start, ''-i'', inp, ''-t'', py_str duration])"
proof -
  have a: "\<exists>k \<le> length chosen.
      started (snd (create_shorts to_int rt video dur chosen w)) =
        started w @
        map (\<lambda>(i, sstart, send).
               ffmpeg_cmd (abspath rt video) (to_int sstart) dur (abspath rt (short_path rt i)))
            (take k (enumerate 0 chosen)) \<and>
      (fst (create_shorts to_int rt video dur chosen w) = Inr () \<longrightarrow> k = length chosen)"
    unfolding create_shorts_def
    using main_loop_started [of "enumerate 0 chosen" to_int rt video dur w]
    by (simp only: length_enumerate)
  have b: "\<forall>chosen'. map fst chosen' = map fst chosen \<longrightarrow>
      create_shorts to_int rt video dur chosen' w =
      create_shorts to_int rt video dur chosen w"
    by (intro allI impI create_shorts_ignores_end)
  have c: "\<forall>inp start duration out.
      take 7 (ffmpeg_cmd inp start duration out) =
        [''ffmpeg'', ''-ss'', py_str start, ''-i'', inp, ''-t'', py_str duration]"
    by (simp add: ffmpeg_cmd_def)
  from a b c show ?thesis
    by (intro conjI)
qed

theorem render_jobs_fixed_duration_witness:
  "fst (create_shorts py_trunc (sample_runtime (Inr [])) ''video.mp4'' 30
          [(31 / 2, 45), (0, 10)] empty_world) = Inr () \<and>
   started (snd (create_shorts py_trunc (sample_runtime (Inr [])) ''video.mp4'' 30
          [(31 / 2, 45), (0, 10)] empty_world)) =
     [ffmpeg_cmd ''/work/video.mp4'' 15 30 ''/work/shorts/short_01.mp4'',
      ffmpeg_cmd ''/work/video.mp4'' 0 30 ''/work/shorts/short_02.mp4''] \<and>
   map fst [(31 / 2 :: rat, 16 :: rat), (0, 100)] = map fst [(31 / 2 :: rat, 45 :: rat), (0, 10)] \<and>
   create_shorts py_trunc (sample_runtime (Inr [])) ''video.mp4'' 30
          [(31 / 2, 16), (0, 100)] empty_world =
   create_shorts py_trunc (sample_runtime (Inr [])) ''video.mp4'' 30
          [(31 / 2, 45), (0, 10)] empty_world"
proof -
  let ?rt = "sample_runtime (Inr [])"
  let ?chosen = "[(31 / 2 :: rat, 45 :: rat), (0, 10)]"
  let ?run = "create_shorts py_trunc ?rt ''video.mp4'' 30 ?chosen empty_world"
  note inst = render_jobs_fixed_duration [of ?chosen py_trunc ?rt "''video.mp4''" 30 empty_world]
  have ok: "fst ?run = Inr ()"
    by (simp only: sample_two_jobs fst_conv)
  have same: "map fst [(31 / 2 :: rat, 16 :: rat), (0, 100)] = map fst ?chosen"
    by simp
  from inst have "\<exists>k \<le> length ?chosen.
      started (snd ?run) =
        started empty_world @
        map (\<lambda>(i, sstart, send).
               ffmpeg_cmd (abspath ?rt ''video.mp4'') (py_trunc sstart) 30
                 (abspath ?rt (short_path ?rt i)))
            (take k (enumerate 0 ?chosen)) \<and>
      (fst ?run = Inr () \<longrightarrow> k = length ?chosen)"
    by (rule conjunct1)
  then obtain k where
    ks: "started (snd ?run) =
       started empty_world @
       map (\<lambda>(i, sstart, send).
              ffmpeg_cmd (abspath ?rt ''video.mp4'') (py_trunc sstart) 30
                (abspath ?rt (short_path ?rt i)))
           (take k (enumerate 0 ?chosen))"
    and kl: "fst ?run = Inr () \<longrightarrow> k = length ?chosen"
    by (elim exE conjE) (rule that)
  from kl ok have k2: "k = 2"
    by simp
  have cmds: "started (snd ?run) =
     [ffmpeg_cmd ''/work/video.mp4'' 15 30 ''/work/shorts/short_01.mp4'',
      ffmpeg_cmd ''/work/video.mp4'' 0 30 ''/work/shorts/short_02.mp4'']"
    unfolding ks k2
    by (simp add: empty_world_def sample_short_path_0 sample_short_path_1
        sample_abspath_video sample_abspath_abs py_trunc_sample py_trunc_zero)
  from inst have "\<forall>chosen'. map fst chosen' = map fst ?chosen \<longrightarrow>
      create_shorts py_trunc ?rt ''video.mp4'' 30 chosen' empty_world = ?run"
    by (elim conjE)
  with same have indep:
    "create_shorts py_trunc ?rt ''video.mp4'' 30 [(31 / 2, 16), (0, 100)] empty_world = ?run"
    by (elim allE impE)
  show ?thesis
    by (intro conjI ok cmds same indep)
qed

end
